theory Spec2Isabelle
  imports Main
begin

section \<open>Availability policies of \<open>oscar/apps/partner/availability.py\<close>\<close>

text \<open>
  The module defines five policy classes: \<open>Base\<close> and its subclasses \<open>Unavailable\<close>,
  \<open>Available\<close>, \<open>StockRequired\<close> and \<open>DelegateToStockRecord\<close>. A policy answers whether
  a product may be bought, in which quantity, and with which status code and message.
  The classes are embedded as one datatype with a constructor per class; a method is a
  function on that datatype, and a method an instance inherits is the function of the
  class that defines it. An exception is a value \<open>Inl e\<close> of the result type.
\<close>

subsection \<open>Exceptions\<close>

text \<open>
  The module has no \<open>raise\<close> of its own. What can go wrong is an attribute read on
  \<open>None\<close> (an \<open>AttributeError\<close>, carrying the attribute's name) and the errors of
  Python's string formatting operator.
\<close>

datatype error =
    AttributeError string
  | KeyError string
  | TypeError string
  | ValueError string

subsection \<open>Collaborators\<close>

text \<open>
  The product, its product class, the user and the stock record belong to other modules.
  The policies read \<open>product.get_product_class().track_stock\<close>, hand the user through
  untouched, and read the attributes of the stock record listed below. What the stock
  record answers is a parameter of the model: each attribute is a field of the record,
  and its method \<open>is_purchase_permitted(user, quantity, product)\<close> is a field of function
  type. The fields of the stock record carry the prefix \<open>sr_\<close> where the policy has a
  method of the same name.
\<close>

datatype user = User string

datatype date = Date int int int

record product_class =
  track_stock :: bool

record product =
  get_product_class :: product_class

record stockrecord =
  net_stock_level :: int
  sr_is_available_to_buy :: bool
  sr_is_purchase_permitted :: "user option \<Rightarrow> int \<Rightarrow> product \<Rightarrow> bool \<times> string"
  availability_code :: string
  availability :: string
  sr_lead_time :: "int option"
  sr_dispatch_date :: "date option"

subsection \<open>Translation and string formatting\<close>

text \<open>
  \<open>_\<close> is Django's \<open>ugettext_lazy\<close>. With no translation catalogue active it yields its
  argument, the message id; the messages are compared by that text.
\<close>

definition ugettext_lazy :: "string \<Rightarrow> string" where
  "ugettext_lazy msgid = msgid"

text \<open>The conversion \<open>%d\<close> of a Python integer: decimal digits, a minus sign when negative.\<close>

definition digit_char :: "nat \<Rightarrow> char" where
  "digit_char d = ''0123456789'' ! d"

fun str_nat :: "nat \<Rightarrow> string" where
  "str_nat n = (if n < 10 then [digit_char n] else str_nat (n div 10) @ [digit_char (n mod 10)])"

declare str_nat.simps [simp del]

definition format_d :: "int \<Rightarrow> string" where
  "format_d i = (if i < 0 then CHR ''-'' # str_nat (nat (- i)) else str_nat (nat i))"

text \<open>
  The decimal numeral of a natural number, stated without reference to the formatter: a
  non-empty string of digits, with no leading zero unless it is \<open>0\<close> itself, whose value
  in base ten is the number. These definitions are not part of the module; they say what
  ``written in decimal'' means for the messages that carry a number.
\<close>

definition decimal_value :: "string \<Rightarrow> nat" where
  "decimal_value s = foldl (\<lambda>acc c. 10 * acc + (of_char c - 48)) 0 s"

definition is_digit :: "char \<Rightarrow> bool" where
  "is_digit c = (c \<in> set ''0123456789'')"

definition is_decimal_of :: "string \<Rightarrow> nat \<Rightarrow> bool" where
  "is_decimal_of s n =
     (s \<noteq> [] \<and> list_all is_digit s \<and> (s = ''0'' \<or> hd s \<noteq> CHR ''0'') \<and> decimal_value s = n)"

text \<open>
  The operator \<open>template % args\<close>, for the conversions that occur in this module:
  \<open>%d\<close> takes the next positional argument, \<open>%(key)d\<close> looks the key up in a mapping,
  \<open>%%\<close> is a percent sign. The right operand is a mapping or a tuple of integers (a
  single integer counts as a tuple of one). Other conversion types do not occur in the
  module and are answered with \<open>ValueError\<close>.
\<close>

datatype fmt_args = Mapping "string \<rightharpoonup> int" | Positional "int list"

datatype fmt_mode = Lit | Pct | Key string | Conv string

definition emit :: "string \<Rightarrow> error + string \<Rightarrow> error + string" where
  "emit s r = (case r of Inl e \<Rightarrow> Inl e | Inr t \<Rightarrow> Inr (s @ t))"

fun percent :: "fmt_mode \<Rightarrow> string \<Rightarrow> fmt_args \<Rightarrow> error + string" where
  "percent Lit [] (Mapping m) = Inr []"
| "percent Lit [] (Positional vs) =
     (if vs = [] then Inr []
      else Inl (TypeError ''not all arguments converted during string formatting''))"
| "percent Lit (c # cs) args =
     (if c = CHR ''%'' then percent Pct cs args else emit [c] (percent Lit cs args))"
| "percent Pct [] args = Inl (ValueError ''incomplete format'')"
| "percent Pct (c # cs) args =
     (if c = CHR ''('' then
        (case args of
           Mapping m \<Rightarrow> percent (Key []) cs args
         | Positional vs \<Rightarrow> Inl (TypeError ''format requires a mapping''))
      else if c = CHR ''d'' then
        (case args of
           Mapping m \<Rightarrow> Inl (TypeError ''%d format: a number is required, not dict'')
         | Positional [] \<Rightarrow> Inl (TypeError ''not enough arguments for format string'')
         | Positional (v # vs) \<Rightarrow> emit (format_d v) (percent Lit cs (Positional vs)))
      else if c = CHR ''%'' then emit ''%'' (percent Lit cs args)
      else Inl (ValueError ''unsupported format character''))"
| "percent (Key k) [] args = Inl (ValueError ''incomplete format key'')"
| "percent (Key k) (c # cs) args =
     (if c = CHR '')'' then percent (Conv k) cs args else percent (Key (k @ [c])) cs args)"
| "percent (Conv k) [] args = Inl (ValueError ''incomplete format'')"
| "percent (Conv k) (c # cs) args =
     (if c = CHR ''d'' then
        (case args of
           Mapping m \<Rightarrow>
             (case m k of
                None \<Rightarrow> Inl (KeyError k)
              | Some v \<Rightarrow> emit (format_d v) (percent Lit cs args))
         | Positional vs \<Rightarrow> Inl (TypeError ''format requires a mapping''))
      else Inl (ValueError ''unsupported format character''))"

definition format :: "string \<Rightarrow> fmt_args \<Rightarrow> error + string" where
  "format template args = percent Lit template args"

subsection \<open>The policy classes\<close>

text \<open>
  An instance of \<open>StockRequired\<close> holds the attribute \<open>stockrecord\<close>, an instance of
  \<open>DelegateToStockRecord\<close> the attributes \<open>product\<close>, \<open>stockrecord\<close> and \<open>user\<close>, as their
  constructors set them; \<open>None\<close> is the default of \<open>stockrecord\<close> and \<open>user\<close>.
\<close>

datatype policy =
    Base
  | Unavailable
  | Available
  | StockRequired "stockrecord option"
  | DelegateToStockRecord product "stockrecord option" "user option"

text \<open>Reading an attribute of \<open>self.stockrecord\<close>, which may be \<open>None\<close>.\<close>

definition getattr :: "stockrecord option \<Rightarrow> string \<Rightarrow> (stockrecord \<Rightarrow> 'a) \<Rightarrow> error + 'a" where
  "getattr obj name field =
     (case obj of None \<Rightarrow> Inl (AttributeError name) | Some sr \<Rightarrow> Inr (field sr))"

subsubsection \<open>\<open>is_purchase_permitted\<close>\<close>

definition Base_is_purchase_permitted :: "int \<Rightarrow> error + bool \<times> string" where
  "Base_is_purchase_permitted quantity = Inr (False, ugettext_lazy ''Unavailable'')"

definition Available_is_purchase_permitted :: "int \<Rightarrow> error + bool \<times> string" where
  "Available_is_purchase_permitted quantity = Inr (True, '''')"

definition StockRequired_is_purchase_permitted ::
    "stockrecord option \<Rightarrow> int \<Rightarrow> error + bool \<times> string" where
  "StockRequired_is_purchase_permitted stockrecord quantity =
     (case getattr stockrecord ''net_stock_level'' net_stock_level of
        Inl e \<Rightarrow> Inl e
      | Inr num_in_stock \<Rightarrow>
          if num_in_stock = 0 then Inr (False, ugettext_lazy ''No stock available'')
          else if quantity > num_in_stock then
            (case format (ugettext_lazy ''A maximum of %(max)d can be bought'')
                    (Mapping [''max'' \<mapsto> num_in_stock]) of
               Inl e \<Rightarrow> Inl e
             | Inr msg \<Rightarrow> Inr (False, msg))
          else Inr (True, ''''))"

definition DelegateToStockRecord_is_purchase_permitted ::
    "product \<Rightarrow> stockrecord option \<Rightarrow> user option \<Rightarrow> int \<Rightarrow> error + bool \<times> string" where
  "DelegateToStockRecord_is_purchase_permitted product stockrecord user quantity =
     (case getattr stockrecord ''is_purchase_permitted'' sr_is_purchase_permitted of
        Inl e \<Rightarrow> Inl e
      | Inr bound \<Rightarrow> Inr (bound user quantity product))"

fun is_purchase_permitted :: "policy \<Rightarrow> int \<Rightarrow> error + bool \<times> string" where
  "is_purchase_permitted Base quantity = Base_is_purchase_permitted quantity"
| "is_purchase_permitted Unavailable quantity = Base_is_purchase_permitted quantity"
| "is_purchase_permitted Available quantity = Available_is_purchase_permitted quantity"
| "is_purchase_permitted (StockRequired stockrecord) quantity =
     StockRequired_is_purchase_permitted stockrecord quantity"
| "is_purchase_permitted (DelegateToStockRecord product stockrecord user) quantity =
     DelegateToStockRecord_is_purchase_permitted product stockrecord user quantity"

subsubsection \<open>\<open>is_available_to_buy\<close>\<close>

text \<open>
  The property of \<open>Base\<close> tests a purchase of a single item, calling the instance's own
  \<open>is_purchase_permitted\<close>; \<open>DelegateToStockRecord\<close> overrides it.
\<close>

definition Base_is_available_to_buy :: "policy \<Rightarrow> error + bool" where
  "Base_is_available_to_buy self =
     (case is_purchase_permitted self 1 of Inl e \<Rightarrow> Inl e | Inr result \<Rightarrow> Inr (fst result))"

definition DelegateToStockRecord_is_available_to_buy ::
    "product \<Rightarrow> stockrecord option \<Rightarrow> user option \<Rightarrow> error + bool" where
  "DelegateToStockRecord_is_available_to_buy product stockrecord user =
     (if stockrecord = None then Inr False
      else if \<not> track_stock (get_product_class product) then Inr True
      else getattr stockrecord ''is_available_to_buy'' sr_is_available_to_buy)"

fun is_available_to_buy :: "policy \<Rightarrow> error + bool" where
  "is_available_to_buy (DelegateToStockRecord product stockrecord user) =
     DelegateToStockRecord_is_available_to_buy product stockrecord user"
| "is_available_to_buy self = Base_is_available_to_buy self"

text \<open>The classes that define \<open>is_available_to_buy\<close> themselves instead of inheriting it.\<close>

fun overrides_is_available_to_buy :: "policy \<Rightarrow> bool" where
  "overrides_is_available_to_buy (DelegateToStockRecord product stockrecord user) = True"
| "overrides_is_available_to_buy self = False"

subsubsection \<open>\<open>code\<close> and \<open>message\<close>\<close>

definition CODE_IN_STOCK :: string where
  "CODE_IN_STOCK = ''instock''"

definition CODE_OUT_OF_STOCK :: string where
  "CODE_OUT_OF_STOCK = ''outofstock''"

definition StockRequired_code :: "stockrecord option \<Rightarrow> error + string" where
  "StockRequired_code stockrecord =
     (case getattr stockrecord ''net_stock_level'' net_stock_level of
        Inl e \<Rightarrow> Inl e
      | Inr level \<Rightarrow> if level > 0 then Inr CODE_IN_STOCK else Inr CODE_OUT_OF_STOCK)"

fun code :: "policy \<Rightarrow> error + string" where
  "code Base = Inr []"
| "code Unavailable = Inr ''unavailable''"
| "code Available = Inr ''available''"
| "code (StockRequired stockrecord) = StockRequired_code stockrecord"
| "code (DelegateToStockRecord product stockrecord user) =
     getattr stockrecord ''availability_code'' availability_code"

definition StockRequired_message :: "stockrecord option \<Rightarrow> error + string" where
  "StockRequired_message stockrecord =
     (case getattr stockrecord ''net_stock_level'' net_stock_level of
        Inl e \<Rightarrow> Inl e
      | Inr level \<Rightarrow>
          if level > 0 then
            (case getattr stockrecord ''net_stock_level'' net_stock_level of
               Inl e \<Rightarrow> Inl e
             | Inr available \<Rightarrow>
                 format (ugettext_lazy ''In stock (%d available)'') (Positional [available]))
          else Inr (ugettext_lazy ''Not available''))"


subsubsection \<open>\<open>lead_time\<close> and \<open>dispatch_date\<close>\<close>



subsection \<open>Calls on an instance, with the instance as state\<close>

text \<open>
  To speak about what a call changes, the methods are embedded a second time as actions
  on the instance: an action takes the instance and yields an answer or an exception,
  and the instance as it is afterwards. An action is put together from the statements
  of the method body: \<open>ret\<close> for \<open>return\<close>, \<open>read_self\<close> for a read of an attribute of
  \<open>self\<close>, \<open>lift\<close> for an expression that reads nothing but may raise, \<open>then_do\<close> for
  sequencing, and \<open>call_stockrecord\<close> and \<open>call_product\<close> for a call of a method of a
  collaborator.
\<close>

type_synonym 'a action = "policy \<Rightarrow> (error + 'a) \<times> policy"

definition ret :: "'a \<Rightarrow> 'a action" where
  "ret v = (\<lambda>self. (Inr v, self))"

definition lift :: "error + 'a \<Rightarrow> 'a action" where
  "lift r = (\<lambda>self. (r, self))"

definition then_do :: "'a action \<Rightarrow> ('a \<Rightarrow> 'b action) \<Rightarrow> 'b action" where
  "then_do m f =
     (\<lambda>self. case m self of (Inl e, self') \<Rightarrow> (Inl e, self') | (Inr v, self') \<Rightarrow> f v self')"

definition read_self :: "(policy \<Rightarrow> error + 'a) \<Rightarrow> 'a action" where
  "read_self attr = (\<lambda>self. (attr self, self))"

text \<open>The attributes of \<open>self\<close>; an attribute the class does not have is an error.\<close>

fun self_stockrecord :: "policy \<Rightarrow> error + stockrecord option" where
  "self_stockrecord (StockRequired stockrecord) = Inr stockrecord"
| "self_stockrecord (DelegateToStockRecord product stockrecord user) = Inr stockrecord"
| "self_stockrecord self = Inl (AttributeError ''stockrecord'')"

fun self_product :: "policy \<Rightarrow> error + product" where
  "self_product (DelegateToStockRecord product stockrecord user) = Inr product"
| "self_product self = Inl (AttributeError ''product'')"

fun self_user :: "policy \<Rightarrow> error + user option" where
  "self_user (DelegateToStockRecord product stockrecord user) = Inr user"
| "self_user self = Inl (AttributeError ''user'')"

text \<open>
  The two collaborator methods the module calls (everything else it does with a
  collaborator is an attribute read): \<open>product.get_product_class()\<close> and
  \<open>stockrecord.is_purchase_permitted(user, quantity, product)\<close>. Their code is in other
  modules, so they are parameters: a method takes the state of the object it is called on
  and returns its answer and the object's state afterwards; its arguments are passed as
  values. The object is shared by reference, so what the method did to it is seen
  through the attribute of \<open>self\<close> that holds it.
\<close>

record collaborator_methods =
  call_get_product_class :: "product \<Rightarrow> product_class \<times> product"
  call_is_purchase_permitted ::
    "user option \<Rightarrow> int \<Rightarrow> product \<Rightarrow> stockrecord \<Rightarrow> (bool \<times> string) \<times> stockrecord"

fun call_stockrecord :: "string \<Rightarrow> (stockrecord \<Rightarrow> 'a \<times> stockrecord) \<Rightarrow> 'a action" where
  "call_stockrecord name m (StockRequired (Some sr)) =
     (case m sr of (v, sr') \<Rightarrow> (Inr v, StockRequired (Some sr')))"
| "call_stockrecord name m (DelegateToStockRecord product (Some sr) user) =
     (case m sr of (v, sr') \<Rightarrow> (Inr v, DelegateToStockRecord product (Some sr') user))"
| "call_stockrecord name m (StockRequired None) = (Inl (AttributeError name), StockRequired None)"
| "call_stockrecord name m (DelegateToStockRecord product None user) =
     (Inl (AttributeError name), DelegateToStockRecord product None user)"
| "call_stockrecord name m self = (Inl (AttributeError ''stockrecord''), self)"

fun call_product :: "(product \<Rightarrow> 'a \<times> product) \<Rightarrow> 'a action" where
  "call_product m (DelegateToStockRecord product stockrecord user) =
     (case m product of (v, product') \<Rightarrow> (Inr v, DelegateToStockRecord product' stockrecord user))"
| "call_product m self = (Inl (AttributeError ''product''), self)"

text \<open>The method bodies, statement by statement.\<close>

definition do_Base_is_purchase_permitted :: "int \<Rightarrow> (bool \<times> string) action" where
  "do_Base_is_purchase_permitted quantity = ret (False, ugettext_lazy ''Unavailable'')"

definition do_Available_is_purchase_permitted :: "int \<Rightarrow> (bool \<times> string) action" where
  "do_Available_is_purchase_permitted quantity = ret (True, [])"

definition do_StockRequired_is_purchase_permitted :: "int \<Rightarrow> (bool \<times> string) action" where
  "do_StockRequired_is_purchase_permitted quantity =
     then_do (read_self self_stockrecord) (\<lambda>stockrecord.
     then_do (lift (getattr stockrecord ''net_stock_level'' net_stock_level)) (\<lambda>num_in_stock.
       if num_in_stock = 0 then ret (False, ugettext_lazy ''No stock available'')
       else if quantity > num_in_stock then
         then_do (lift (format (ugettext_lazy ''A maximum of %(max)d can be bought'')
                          (Mapping [''max'' \<mapsto> num_in_stock])))
           (\<lambda>msg. ret (False, msg))
       else ret (True, [])))"

definition do_DelegateToStockRecord_is_purchase_permitted ::
    "collaborator_methods \<Rightarrow> int \<Rightarrow> (bool \<times> string) action" where
  "do_DelegateToStockRecord_is_purchase_permitted c quantity =
     then_do (read_self self_stockrecord) (\<lambda>stockrecord.
     then_do (lift (getattr stockrecord ''is_purchase_permitted'' (\<lambda>sr. ()))) (\<lambda>bound.
     then_do (read_self self_user) (\<lambda>user.
     then_do (read_self self_product) (\<lambda>product.
       call_stockrecord ''is_purchase_permitted''
         (call_is_purchase_permitted c user quantity product)))))"

fun do_is_purchase_permitted :: "collaborator_methods \<Rightarrow> int \<Rightarrow> (bool \<times> string) action" where
  "do_is_purchase_permitted c quantity Base = do_Base_is_purchase_permitted quantity Base"
| "do_is_purchase_permitted c quantity Unavailable =
     do_Base_is_purchase_permitted quantity Unavailable"
| "do_is_purchase_permitted c quantity Available =
     do_Available_is_purchase_permitted quantity Available"
| "do_is_purchase_permitted c quantity (StockRequired stockrecord) =
     do_StockRequired_is_purchase_permitted quantity (StockRequired stockrecord)"
| "do_is_purchase_permitted c quantity (DelegateToStockRecord product stockrecord user) =
     do_DelegateToStockRecord_is_purchase_permitted c quantity
       (DelegateToStockRecord product stockrecord user)"

definition do_Base_is_available_to_buy :: "collaborator_methods \<Rightarrow> bool action" where
  "do_Base_is_available_to_buy c =
     then_do (do_is_purchase_permitted c 1) (\<lambda>result. ret (fst result))"

definition do_DelegateToStockRecord_is_available_to_buy ::
    "collaborator_methods \<Rightarrow> bool action" where
  "do_DelegateToStockRecord_is_available_to_buy c =
     then_do (read_self self_stockrecord) (\<lambda>stockrecord.
       if stockrecord = None then ret False
       else
         then_do (call_product (call_get_product_class c)) (\<lambda>product_class.
           if \<not> track_stock product_class then ret True
           else
             then_do (read_self self_stockrecord) (\<lambda>stockrecord.
               lift (getattr stockrecord ''is_available_to_buy'' sr_is_available_to_buy))))"

fun do_is_available_to_buy :: "collaborator_methods \<Rightarrow> bool action" where
  "do_is_available_to_buy c (DelegateToStockRecord product stockrecord user) =
     do_DelegateToStockRecord_is_available_to_buy c
       (DelegateToStockRecord product stockrecord user)"
| "do_is_available_to_buy c self = do_Base_is_available_to_buy c self"












text \<open>
  The class that hands calls on to its collaborators; collaborator methods that leave the
  object they are called on as it was; and the collaborator whose methods are plain
  queries of the stock record's and the product's fields, under which the actions are the
  functions of the previous subsection.
\<close>

fun delegates :: "policy \<Rightarrow> bool" where
  "delegates (DelegateToStockRecord product stockrecord user) = True"
| "delegates self = False"


definition queries :: collaborator_methods where
  "queries =
     \<lparr>call_get_product_class = (\<lambda>product. (get_product_class product, product)),
      call_is_purchase_permitted =
        (\<lambda>user quantity product sr. (sr_is_purchase_permitted sr user quantity product, sr))\<rparr>"


subsection \<open>Example collaborators\<close>

text \<open>
  A stock record that answers every question from its stock level, a product whose
  class tracks stock and one whose class does not.
\<close>

definition stock_at :: "int \<Rightarrow> stockrecord" where
  "stock_at n =
     \<lparr>net_stock_level = n,
      sr_is_available_to_buy = (0 < n),
      sr_is_purchase_permitted =
        (\<lambda>user quantity product.
           if 0 < n \<and> quantity \<le> n then (True, [])
           else (False, ''Not available to purchase'')),
      availability_code = (if 0 < n then ''instock'' else ''outofstock''),
      availability = (if 0 < n then ''In stock'' else ''Not available''),
      sr_lead_time = None,
      sr_dispatch_date = None\<rparr>"

definition tracked_product :: product where
  "tracked_product = \<lparr>get_product_class = \<lparr>track_stock = True\<rparr>\<rparr>"

definition untracked_product :: product where
  "untracked_product = \<lparr>get_product_class = \<lparr>track_stock = False\<rparr>\<rparr>"



section \<open>Auxiliary facts\<close>

subsection \<open>Formatting\<close>

lemma digit_char_value: "d < 10 \<Longrightarrow> of_char (digit_char d) - 48 = d"
proof -
  assume "d < 10"
  then have "d \<in> {0, 1, 2, 3, 4, 5, 6, 7, 8, 9}" by auto
  then show ?thesis by (auto simp: digit_char_def)
qed

lemma decimal_value_snoc: "decimal_value (s @ [c]) = 10 * decimal_value s + (of_char c - 48)"
  by (simp add: decimal_value_def)

lemma decimal_value_str_nat: "decimal_value (str_nat n) = n"
proof (induction n rule: str_nat.induct)
  case (1 n)
  show ?case
  proof (cases "n < 10")
    case True
    then show ?thesis
      by (subst str_nat.simps) (simp add: decimal_value_def digit_char_value)
  next
    case False
    with 1 have "decimal_value (str_nat (n div 10)) = n div 10" by simp
    with False show ?thesis
      by (subst str_nat.simps) (simp add: decimal_value_snoc digit_char_value)
  qed
qed

text \<open>
  \<open>str_nat\<close> writes the decimal numeral of its argument, and the decimal numeral of a
  number is unique; so \<open>%d\<close> of a non-negative integer is its decimal numeral and nothing
  else is.
\<close>

lemma digit_char_is_digit: "d < 10 \<Longrightarrow> is_digit (digit_char d)"
proof -
  assume "d < 10"
  then have "d \<in> {0, 1, 2, 3, 4, 5, 6, 7, 8, 9}" by auto
  then show ?thesis by (auto simp: digit_char_def is_digit_def)
qed

lemma digit_char_zero: "d < 10 \<Longrightarrow> (digit_char d = CHR ''0'') = (d = 0)"
proof -
  assume "d < 10"
  then have "d \<in> {0, 1, 2, 3, 4, 5, 6, 7, 8, 9}" by auto
  then show ?thesis by (auto simp: digit_char_def)
qed

lemma str_nat_nonempty: "str_nat n \<noteq> []"
  by (subst str_nat.simps) simp

lemma str_nat_digits: "list_all is_digit (str_nat n)"
proof (induction n rule: str_nat.induct)
  case (1 n)
  show ?case
  proof (cases "n < 10")
    case True
    then show ?thesis by (subst str_nat.simps) (simp add: digit_char_is_digit)
  next
    case False
    with 1 have "list_all is_digit (str_nat (n div 10))" by simp
    with False show ?thesis by (subst str_nat.simps) (simp add: digit_char_is_digit)
  qed
qed

lemma str_nat_leading: "(hd (str_nat n) = CHR ''0'') = (n = 0)"
proof (induction n rule: str_nat.induct)
  case (1 n)
  show ?case
  proof (cases "n < 10")
    case True
    then show ?thesis by (subst str_nat.simps) (simp add: digit_char_zero)
  next
    case False
    with 1 have "(hd (str_nat (n div 10)) = CHR ''0'') = (n div 10 = 0)" by simp
    moreover from False have "n div 10 \<noteq> 0" by simp
    ultimately have "hd (str_nat (n div 10)) \<noteq> CHR ''0''" by simp
    with False show ?thesis by (subst str_nat.simps) (simp add: str_nat_nonempty)
  qed
qed

lemma str_nat_0: "str_nat 0 = ''0''"
  by (simp add: str_nat.simps digit_char_def)

lemma str_nat_decimal: "is_decimal_of (str_nat n) n"
  unfolding is_decimal_of_def
  using str_nat_nonempty [of n] str_nat_digits [of n] str_nat_leading [of n]
    decimal_value_str_nat [of n] str_nat_0
  by (cases "n = 0") simp_all

lemma format_d_decimal: "0 \<le> i \<Longrightarrow> is_decimal_of (format_d i) (nat i)"
  by (simp add: format_d_def str_nat_decimal)

lemma is_digit_value: "is_digit c \<Longrightarrow> of_char c - 48 < (10::nat) \<and> digit_char (of_char c - 48) = c"
  by (auto simp: is_digit_def digit_char_def)

lemma decimal_value_positive:
  "s \<noteq> [] \<Longrightarrow> list_all is_digit s \<Longrightarrow> hd s \<noteq> CHR ''0'' \<Longrightarrow> 0 < decimal_value s"
proof (induction s rule: rev_induct)
  case Nil
  then show ?case by simp
next
  case (snoc c s)
  show ?case
  proof (cases "s = []")
    case True
    with snoc.prems show ?thesis
      by (auto simp: decimal_value_def is_digit_def)
  next
    case False
    with snoc have "0 < decimal_value s" by simp
    then show ?thesis by (simp add: decimal_value_snoc)
  qed
qed

lemma decimal_unique: "is_decimal_of s n \<Longrightarrow> s = str_nat n"
proof (induction s arbitrary: n rule: rev_induct)
  case Nil
  then show ?case by (simp add: is_decimal_of_def)
next
  case (snoc c s)
  from snoc.prems have c: "is_digit c" and ds: "list_all is_digit s"
    and v: "10 * decimal_value s + (of_char c - 48) = n"
    by (simp_all add: is_decimal_of_def decimal_value_snoc)
  from c have c10: "of_char c - 48 < (10::nat)" and cc: "digit_char (of_char c - 48) = c"
    using is_digit_value by blast+
  show ?case
  proof (cases "s = []")
    case True
    with v c10 have "n < 10" and "of_char c - 48 = n" by (simp_all add: decimal_value_def)
    with cc True show ?thesis by (subst str_nat.simps) simp
  next
    case False
    with snoc.prems have h: "hd s \<noteq> CHR ''0''" by (auto simp: is_decimal_of_def)
    with False ds have pos: "0 < decimal_value s" by (rule decimal_value_positive)
    from False ds h have "is_decimal_of s (decimal_value s)" by (simp add: is_decimal_of_def)
    then have s: "s = str_nat (decimal_value s)" by (rule snoc.IH)
    from v c10 have d: "n div 10 = decimal_value s" and m: "n mod 10 = of_char c - 48" by auto
    from pos v have "\<not> n < 10" by simp
    then have "str_nat n = str_nat (n div 10) @ [digit_char (n mod 10)]"
      by (subst str_nat.simps) simp
    with d m cc s show ?thesis by simp
  qed
qed

lemma decimal_numeral_iff: "is_decimal_of s n = (s = str_nat n)"
  using decimal_unique [of s n] str_nat_decimal [of n] by blast

lemma is_decimal_of_0: "is_decimal_of ''0'' 0"
  by (simp add: is_decimal_of_def is_digit_def decimal_value_def)

lemma is_decimal_of_5: "is_decimal_of ''5'' 5"
  by (simp add: is_decimal_of_def is_digit_def decimal_value_def)

lemma is_decimal_of_120: "is_decimal_of ''120'' 120"
  by (simp add: is_decimal_of_def is_digit_def decimal_value_def)

lemma format_d_5: "format_d 5 = ''5''"
  by (simp add: format_d_def str_nat.simps digit_char_def)

lemma format_max:
  "format ''A maximum of %(max)d can be bought'' (Mapping [''max'' \<mapsto> n]) =
     Inr (''A maximum of '' @ format_d n @ '' can be bought'')"
  by (simp add: format_def emit_def)

lemma format_in_stock:
  "format ''In stock (%d available)'' (Positional [n]) =
     Inr (''In stock ('' @ format_d n @ '' available)'')"
  by (simp add: format_def emit_def)

subsection \<open>\<open>StockRequired\<close> with a stock record\<close>

lemma stock_required_permitted:
  "StockRequired_is_purchase_permitted (Some sr) quantity =
    (if net_stock_level sr = 0 then Inr (False, ''No stock available'')
     else if quantity > net_stock_level sr then
       Inr (False, ''A maximum of '' @ format_d (net_stock_level sr) @ '' can be bought'')
     else Inr (True, ''''))"
  by (simp add: StockRequired_is_purchase_permitted_def getattr_def ugettext_lazy_def format_max)

lemma stock_required_code:
  "StockRequired_code (Some sr) =
     Inr (if net_stock_level sr > 0 then ''instock'' else ''outofstock'')"
  by (simp add: StockRequired_code_def getattr_def CODE_IN_STOCK_def CODE_OUT_OF_STOCK_def)

lemma stock_required_message:
  "StockRequired_message (Some sr) =
     Inr (if net_stock_level sr > 0
          then ''In stock ('' @ format_d (net_stock_level sr) @ '' available)''
          else ''Not available'')"
  by (simp add: StockRequired_message_def getattr_def ugettext_lazy_def format_in_stock)

lemma net_stock_level_stock_at: "net_stock_level (stock_at n) = n"
  by (simp add: stock_at_def)

subsection \<open>Case analysis on an instance\<close>

lemma policy_cases:
  obtains "self = Base" | "self = Unavailable" | "self = Available"
  | "self = StockRequired None"
  | sr where "self = StockRequired (Some sr)"
  | product user where "self = DelegateToStockRecord product None user"
  | product sr user where "self = DelegateToStockRecord product (Some sr) user"
proof (cases self)
  case (StockRequired x)
  with that show ?thesis by (cases x) auto
next
  case (DelegateToStockRecord p x u)
  with that show ?thesis by (cases x) auto
qed (use that in auto)

subsection \<open>The actions under plain queries are the functions\<close>

lemmas action_defs = ret_def lift_def then_do_def read_self_def

lemma do_is_purchase_permitted_queries:
  "do_is_purchase_permitted queries quantity self = (is_purchase_permitted self quantity, self)"
  by (cases self rule: policy_cases)
     (simp_all add: action_defs do_Base_is_purchase_permitted_def Base_is_purchase_permitted_def
      do_Available_is_purchase_permitted_def Available_is_purchase_permitted_def
      do_StockRequired_is_purchase_permitted_def StockRequired_is_purchase_permitted_def
      do_DelegateToStockRecord_is_purchase_permitted_def
      DelegateToStockRecord_is_purchase_permitted_def getattr_def queries_def
      split: sum.splits)

lemma do_Base_is_available_to_buy_queries:
  "do_Base_is_available_to_buy queries self = (Base_is_available_to_buy self, self)"
  by (simp add: do_Base_is_available_to_buy_def Base_is_available_to_buy_def action_defs
      do_is_purchase_permitted_queries split: sum.splits)

lemma do_is_available_to_buy_queries:
  "do_is_available_to_buy queries self = (is_available_to_buy self, self)"
proof (cases "delegates self")
  case True
  then show ?thesis
    by (cases self rule: policy_cases)
       (simp_all add: action_defs do_DelegateToStockRecord_is_available_to_buy_def
        DelegateToStockRecord_is_available_to_buy_def getattr_def queries_def)
next
  case False
  then show ?thesis
    by (cases self) (simp_all add: do_Base_is_available_to_buy_queries)
qed





subsection \<open>Which actions leave the instance as it was\<close>


















section \<open>The claims\<close>

text \<open>
  C1. For every \<open>StockRequired\<close> policy with an attached stock record whose
  \<open>net_stock_level\<close> is a non-negative integer, \<open>is_purchase_permitted(quantity)\<close> returns
  \<open>(False, "No stock available")\<close> when the level is zero; \<open>(False, "A maximum of N can be
  bought")\<close>, with \<open>N\<close> the decimal numeral of the level, when the level is positive and
  the quantity exceeds it; and \<open>(True, "")\<close> otherwise. The level has a decimal numeral.
\<close>

theorem stock_required_purchase:
  assumes "0 \<le> net_stock_level sr"
    and "is_decimal_of N (nat (net_stock_level sr))"
  shows "is_purchase_permitted (StockRequired (Some sr)) quantity =
    (if net_stock_level sr = 0 then Inr (False, ''No stock available'')
     else if quantity > net_stock_level sr then
       Inr (False, ''A maximum of '' @ N @ '' can be bought'')
     else Inr (True, [])) \<and>
    (\<exists>M. is_decimal_of M (nat (net_stock_level sr)))"
proof -
  from assms have "N = format_d (net_stock_level sr)"
    by (simp add: decimal_numeral_iff format_d_def)
  with assms(2) show ?thesis
    by (auto simp add: stock_required_permitted)
qed

theorem stock_required_purchase_witness:
  "is_decimal_of ''0'' (nat 0) \<and> is_decimal_of ''5'' (nat 5) \<and>
   is_decimal_of ''120'' (nat 120) \<and>
   is_purchase_permitted (StockRequired (Some (stock_at 0))) 1
     = Inr (False, ''No stock available'') \<and>
   is_purchase_permitted (StockRequired (Some (stock_at 5))) 6
     = Inr (False, ''A maximum of 5 can be bought'') \<and>
   is_purchase_permitted (StockRequired (Some (stock_at 5))) 5 = Inr (True, []) \<and>
   is_purchase_permitted (StockRequired (Some (stock_at 120))) 121
     = Inr (False, ''A maximum of 120 can be bought'')"
  using stock_required_purchase [of "stock_at 0" "''0''" 1]
    stock_required_purchase [of "stock_at 5" "''5''" 6]
    stock_required_purchase [of "stock_at 5" "''5''" 5]
    stock_required_purchase [of "stock_at 120" "''120''" 121]
    is_decimal_of_0 is_decimal_of_5 is_decimal_of_120
  by (simp add: net_stock_level_stock_at)

text \<open>
  C2, as stated: for every policy class and every input on which
  \<open>is_purchase_permitted(1)\<close> is defined, \<open>is_available_to_buy\<close> equals the first component
  of \<open>is_purchase_permitted(1)\<close>. This fails for \<open>DelegateToStockRecord\<close>, which overrides
  the property: for a product whose class does not track stock it answers \<open>True\<close> without
  asking the stock record, while \<open>is_purchase_permitted(1)\<close> is the stock record's answer,
  here a refusal.
\<close>

theorem delegate_disagrees:
  "is_purchase_permitted (DelegateToStockRecord untracked_product (Some (stock_at 0)) None) 1
     = Inr (False, ''Not available to purchase'') \<and>
   is_available_to_buy (DelegateToStockRecord untracked_product (Some (stock_at 0)) None)
     = Inr True"
  by (simp add: DelegateToStockRecord_is_purchase_permitted_def
      DelegateToStockRecord_is_available_to_buy_def getattr_def stock_at_def
      untracked_product_def)

text \<open>
  C2, amended: for every policy of a class that inherits \<open>is_available_to_buy\<close> from
  \<open>Base\<close> (\<open>Base\<close>, \<open>Unavailable\<close>, \<open>Available\<close>, \<open>StockRequired\<close>) and every input on which
  \<open>is_purchase_permitted(1)\<close> is defined, \<open>is_available_to_buy\<close> equals the first component
  of \<open>is_purchase_permitted(1)\<close>.
\<close>

theorem inherited_is_available_to_buy:
  assumes "\<not> overrides_is_available_to_buy self"
    and "is_purchase_permitted self 1 = Inr (ok, reason)"
  shows "is_available_to_buy self = Inr ok"
  using assms by (cases self) (simp_all add: Base_is_available_to_buy_def)

theorem inherited_is_available_to_buy_witness:
  "\<not> overrides_is_available_to_buy (StockRequired (Some (stock_at 5))) \<and>
   is_purchase_permitted (StockRequired (Some (stock_at 5))) 1 = Inr (True, '''') \<and>
   is_available_to_buy (StockRequired (Some (stock_at 5))) = Inr True"
proof -
  have a: "\<not> overrides_is_available_to_buy (StockRequired (Some (stock_at 5)))"
    by simp
  have b: "is_purchase_permitted (StockRequired (Some (stock_at 5))) 1 = Inr (True, '''')"
    by (simp add: stock_required_permitted net_stock_level_stock_at)
  from a b inherited_is_available_to_buy [OF a b] show ?thesis by blast
qed

text \<open>
  C3. For the \<open>Available\<close> policy, \<open>is_purchase_permitted(n)\<close> returns \<open>(True, "")\<close> for
  every quantity \<open>n \<ge> 1\<close>.
\<close>

theorem available_always_permitted:
  "1 \<le> n \<Longrightarrow> is_purchase_permitted Available n = Inr (True, '''')"
  by (simp add: Available_is_purchase_permitted_def)

theorem available_always_permitted_witness:
  "(1::int) \<le> 3 \<and> is_purchase_permitted Available 3 = Inr (True, '''')"
proof -
  have h: "(1::int) \<le> 3" by simp
  from h available_always_permitted [OF h] show ?thesis by blast
qed

text \<open>
  C4. For the \<open>Base\<close> and \<open>Unavailable\<close> policies, \<open>is_purchase_permitted(quantity)\<close>
  returns \<open>(False, "Unavailable")\<close> for every quantity.
\<close>

theorem unavailable_never_permitted:
  "is_purchase_permitted Base quantity = Inr (False, ''Unavailable'') \<and>
   is_purchase_permitted Unavailable quantity = Inr (False, ''Unavailable'')"
  by (simp add: Base_is_purchase_permitted_def ugettext_lazy_def)

text \<open>
  C5. For every \<open>DelegateToStockRecord\<close> policy, \<open>is_available_to_buy\<close> is false when no
  stock record is attached, and true when a stock record is attached but the product's
  class does not track stock; otherwise it is the stock record's own
  \<open>is_available_to_buy\<close>.
\<close>

theorem delegate_is_available_to_buy:
  "is_available_to_buy (DelegateToStockRecord product None user) = Inr False \<and>
   (\<not> track_stock (get_product_class product) \<longrightarrow>
      is_available_to_buy (DelegateToStockRecord product (Some sr) user) = Inr True) \<and>
   (track_stock (get_product_class product) \<longrightarrow>
      is_available_to_buy (DelegateToStockRecord product (Some sr) user)
        = Inr (sr_is_available_to_buy sr))"
  by (simp add: DelegateToStockRecord_is_available_to_buy_def getattr_def)

theorem delegate_is_available_to_buy_witness:
  "is_available_to_buy (DelegateToStockRecord untracked_product None None) = Inr False \<and>
   \<not> track_stock (get_product_class untracked_product) \<and>
   is_available_to_buy (DelegateToStockRecord untracked_product (Some (stock_at 0)) None)
     = Inr True \<and>
   track_stock (get_product_class tracked_product) \<and>
   is_available_to_buy (DelegateToStockRecord tracked_product (Some (stock_at 0)) None)
     = Inr False \<and>
   is_available_to_buy (DelegateToStockRecord tracked_product (Some (stock_at 5)) None)
     = Inr True"
proof -
  have u: "\<not> track_stock (get_product_class untracked_product)"
    by (simp add: untracked_product_def)
  have t: "track_stock (get_product_class tracked_product)"
    by (simp add: tracked_product_def)
  have s0: "sr_is_available_to_buy (stock_at 0) = False"
    and s5: "sr_is_available_to_buy (stock_at 5) = True"
    by (simp_all add: stock_at_def)
  from u t s0 s5
    delegate_is_available_to_buy [of untracked_product None "stock_at 0"]
    delegate_is_available_to_buy [of tracked_product None "stock_at 0"]
    delegate_is_available_to_buy [of tracked_product None "stock_at 5"]
  show ?thesis by simp
qed

text \<open>
  C6. For every \<open>StockRequired\<close> policy with an attached stock record whose
  \<open>net_stock_level\<close> is a non-negative integer, \<open>code\<close> is \<open>"instock"\<close> when the level is
  positive and \<open>"outofstock"\<close> when it is zero.
\<close>

theorem stock_required_code_by_level:
  assumes "0 \<le> net_stock_level sr"
  shows "(0 < net_stock_level sr \<longrightarrow> code (StockRequired (Some sr)) = Inr ''instock'') \<and>
         (net_stock_level sr = 0 \<longrightarrow> code (StockRequired (Some sr)) = Inr ''outofstock'')"
  by (simp add: stock_required_code)

theorem stock_required_code_by_level_witness:
  "code (StockRequired (Some (stock_at 5))) = Inr ''instock'' \<and>
   code (StockRequired (Some (stock_at 0))) = Inr ''outofstock''"
  using stock_required_code_by_level [of "stock_at 5"]
    stock_required_code_by_level [of "stock_at 0"]
  by (simp add: net_stock_level_stock_at)

text \<open>
  C7. For a \<open>StockRequired\<close> or \<open>DelegateToStockRecord\<close> policy constructed without a stock
  record, \<open>is_purchase_permitted(quantity)\<close> fails with an attribute error on \<open>None\<close> for
  every quantity, and returns no (bool, reason) pair: \<open>StockRequired\<close> at the read of
  \<open>net_stock_level\<close>, \<open>DelegateToStockRecord\<close> at the read of the stock record's
  \<open>is_purchase_permitted\<close>.
\<close>

theorem missing_stockrecord_fails:
  "is_purchase_permitted (StockRequired None) quantity
     = Inl (AttributeError ''net_stock_level'') \<and>
   is_purchase_permitted (DelegateToStockRecord product None user) quantity
     = Inl (AttributeError ''is_purchase_permitted'')"
  by (simp add: StockRequired_is_purchase_permitted_def
      DelegateToStockRecord_is_purchase_permitted_def getattr_def)





text \<open>
  C9. Neither \<open>Available\<close> nor \<open>StockRequired\<close> checks that the quantity is positive: for
  every quantity \<open>q \<le> 0\<close>, \<open>Available.is_purchase_permitted(q)\<close> returns \<open>(True, "")\<close>, and
  so does \<open>StockRequired.is_purchase_permitted(q)\<close> with an attached stock record whose
  \<open>net_stock_level\<close> is positive.
\<close>

theorem quantity_not_validated:
  assumes "q \<le> 0"
  shows "is_purchase_permitted Available q = Inr (True, '''') \<and>
    (0 < net_stock_level sr \<longrightarrow>
       is_purchase_permitted (StockRequired (Some sr)) q = Inr (True, ''''))"
  using assms by (simp add: Available_is_purchase_permitted_def stock_required_permitted)

theorem quantity_not_validated_witness:
  "is_purchase_permitted Available (- 2) = Inr (True, '''') \<and>
   is_purchase_permitted (StockRequired (Some (stock_at 5))) (- 2) = Inr (True, '''') \<and>
   is_purchase_permitted (StockRequired (Some (stock_at 5))) 0 = Inr (True, '''')"
  using quantity_not_validated [of "- 2" "stock_at 5"]
    quantity_not_validated [of 0 "stock_at 5"]
  by (simp add: net_stock_level_stock_at)

text \<open>
  C10. For every \<open>StockRequired\<close> policy with an attached stock record whose
  \<open>net_stock_level\<close> is a non-negative integer, \<open>is_available_to_buy\<close> is true if and only
  if \<open>code\<close> is \<open>"instock"\<close>, which is the case if and only if the level is positive.
\<close>

theorem availability_agrees_with_code:
  assumes "0 \<le> net_stock_level sr"
  shows "(is_available_to_buy (StockRequired (Some sr)) = Inr True)
           = (code (StockRequired (Some sr)) = Inr ''instock'') \<and>
         (code (StockRequired (Some sr)) = Inr ''instock'') = (0 < net_stock_level sr) \<and>
         is_available_to_buy (StockRequired (Some sr)) = Inr (0 < net_stock_level sr)"
  using assms
  by (auto simp add: Base_is_available_to_buy_def stock_required_permitted stock_required_code)

theorem availability_agrees_with_code_witness:
  "is_available_to_buy (StockRequired (Some (stock_at 5))) = Inr True \<and>
   code (StockRequired (Some (stock_at 5))) = Inr ''instock'' \<and>
   is_available_to_buy (StockRequired (Some (stock_at 0))) = Inr False \<and>
   code (StockRequired (Some (stock_at 0))) \<noteq> Inr ''instock''"
  using availability_agrees_with_code [of "stock_at 5"]
    availability_agrees_with_code [of "stock_at 0"]
  by (simp add: net_stock_level_stock_at)

end
